theory Spec2Isabelle
  imports Main "HOL-Library.AList" "HOL-Library.Word"
begin

section \<open>Python values used by imei\_pdf\_app.py\<close>

text \<open>
  A Python \<open>str\<close> is a sequence of Unicode code points and \<open>len\<close> counts code points,
  so a string is a list of code points here. \<open>bytes\<close> is a list of octets.
\<close>

type_synonym codepoint = nat
type_synonym pystr = "codepoint list"
type_synonym bytes = "8 word list"

definition of_ascii :: "string \<Rightarrow> pystr" where
  "of_ascii s = map of_char s"

text \<open>
  \<open>str.strip()\<close> without arguments removes leading and trailing white space. The
  characters it removes are those of the interpreter's white-space table:
  U+0009..U+000D, U+001C..U+0020, U+0085, U+00A0, U+1680, U+2000..U+200A, U+2028, U+2029,
  U+202F, U+205F and U+3000.
\<close>

definition py_isspace :: "codepoint \<Rightarrow> bool" where
  "py_isspace c \<longleftrightarrow>
     (9 \<le> c \<and> c \<le> 13) \<or> (28 \<le> c \<and> c \<le> 32) \<or> c = 133 \<or> c = 160 \<or> c = 5760 \<or>
     (8192 \<le> c \<and> c \<le> 8202) \<or> c = 8232 \<or> c = 8233 \<or> c = 8239 \<or> c = 8287 \<or> c = 12288"

definition strip :: "pystr \<Rightarrow> pystr" where
  "strip s = rev (dropWhile py_isspace (rev (dropWhile py_isspace s)))"

text \<open>A string that neither starts nor ends with white space.\<close>

definition trimmed :: "pystr \<Rightarrow> bool" where
  "trimmed s \<longleftrightarrow> s = [] \<or> (\<not> py_isspace (hd s) \<and> \<not> py_isspace (last s))"

text \<open>
  \<open>s.isdigit()\<close> holds when \<open>s\<close> has at least one character and every character is a
  digit of the Unicode database of the running interpreter. That table is not part of the
  program; it is the parameter \<open>digit\<close>.
\<close>

definition isdigit :: "(codepoint \<Rightarrow> bool) \<Rightarrow> pystr \<Rightarrow> bool" where
  "isdigit digit s \<longleftrightarrow> s \<noteq> [] \<and> list_all digit s"

definition ascii_digit :: "codepoint \<Rightarrow> bool" where
  "ascii_digit c \<longleftrightarrow> 48 \<le> c \<and> c \<le> 57"

text \<open>\<open>str(i)\<close> for an integer: its decimal digits, with a minus sign when negative.\<close>

fun str_nat :: "nat \<Rightarrow> pystr" where
  "str_nat n = (if n < 10 then [48 + n] else str_nat (n div 10) @ [48 + n mod 10])"

declare str_nat.simps [simp del]

definition str_int :: "int \<Rightarrow> pystr" where
  "str_int i = (if i < 0 then 45 # str_nat (nat (- i)) else str_nat (nat i))"

text \<open>
  A cell of a record returned by \<open>worksheet.get_all_records()\<close> is a string, or an
  integer or a float when the text of the cell reads as one. The program only takes
  \<open>str()\<close> and the truth value of a float, so a float is represented by these two.
  \<open>row.get(header)\<close> is \<open>None\<close> when the record has no such column.
\<close>

datatype cell = CStr pystr | CInt int | CFloat (float_str: pystr) (float_truth: bool)

type_synonym row = "(pystr \<times> cell) list"

fun py_str :: "cell option \<Rightarrow> pystr" where
  "py_str None = of_ascii ''None''"
| "py_str (Some (CStr s)) = s"
| "py_str (Some (CInt i)) = str_int i"
| "py_str (Some (CFloat t nz)) = t"

fun truthy :: "cell option \<Rightarrow> bool" where
  "truthy None = False"
| "truthy (Some (CStr s)) = (s \<noteq> [])"
| "truthy (Some (CInt i)) = (i \<noteq> 0)"
| "truthy (Some (CFloat t nz)) = nz"

fun is_str :: "cell option \<Rightarrow> bool" where
  "is_str (Some (CStr s)) = True"
| "is_str v = False"

text \<open>
  The exceptions (subclasses of \<open>Exception\<close>) that the body of the loader can raise.
  \<open>AttributeError\<close> carries the name of the type that has no attribute \<open>strip\<close>,
  \<open>OtherException\<close> the text of any other exception.
\<close>

datatype py_exception =
    SpreadsheetNotFound
  | WorksheetNotFound
  | AttributeError pystr
  | OtherException pystr

fun strip_attr :: "cell option \<Rightarrow> py_exception + pystr" where
  "strip_attr (Some (CStr s)) = Inr (strip s)"
| "strip_attr (Some (CInt i)) = Inl (AttributeError (of_ascii ''int''))"
| "strip_attr (Some (CFloat t nz)) = Inl (AttributeError (of_ascii ''float''))"
| "strip_attr None = Inl (AttributeError (of_ascii ''NoneType''))"

section \<open>Configuration, messages and user interface elements\<close>

record config =
  SPREADSHEET_NAME :: pystr
  WORKSHEET_NAME :: pystr

definition IMEI_COLUMN_HEADER :: pystr where
  "IMEI_COLUMN_HEADER = of_ascii ''IMEI''"

definition PDF_URL_COLUMN_HEADER :: pystr where
  "PDF_URL_COLUMN_HEADER = of_ascii ''PDF_URL''"

text \<open>
  An exception of the class \<open>RequestException\<close>: an HTTP error status, or any other
  failure of that class with its text. A call of \<open>requests\<close> can also raise an exception
  of another class (a URL that cannot be parsed, no memory left for the body), which the
  handler of line 89 does not catch.
\<close>

datatype request_exception = HTTPError nat | NetworkError pystr

datatype raised = RequestException request_exception | NotRequestException pystr

text \<open>
  The messages of the program, one constructor for each message text of the source, with
  the values the source interpolates into it:
  \<^item> \<open>MsgSpreadsheetNotFound name\<close>: the spreadsheet \<open>name\<close> was not found (line 68);
  \<^item> \<open>MsgWorksheetNotFound ws ss\<close>: the worksheet \<open>ws\<close> was not found in \<open>ss\<close> (line 72);
  \<^item> \<open>MsgLoadFailed e\<close>: an error \<open>e\<close> occurred while loading the sheet (line 77);
  \<^item> \<open>MsgDownloadFailed url e\<close>: downloading from \<open>url\<close> failed with detail \<open>e\<close> (line 90);
  \<^item> \<open>MsgEmbedFailed detail\<close>: the PDF could not be embedded, it can still be downloaded
    (line 116);
  \<^item> \<open>MsgNoPdf\<close>: no PDF available to show or download (line 118);
  \<^item> \<open>MsgEnterImei\<close>: please enter an IMEI (line 142);
  \<^item> \<open>MsgImeiFormat\<close>: the IMEI must be a number of 15 digits, numbers only (line 144);
  \<^item> \<open>MsgFound imei\<close>: \<open>imei\<close> found, trying to download the PDF (line 153);
  \<^item> \<open>MsgNotFound imei\<close>: no PDF document associated with \<open>imei\<close> (line 157).
\<close>

datatype message =
    MsgSpreadsheetNotFound pystr
  | MsgWorksheetNotFound pystr pystr
  | MsgLoadFailed py_exception
  | MsgDownloadFailed pystr request_exception
  | MsgEmbedFailed pystr
  | MsgNoPdf
  | MsgEnterImei
  | MsgImeiFormat
  | MsgFound pystr
  | MsgNotFound pystr

text \<open>
  What the program puts on the page. \<open>St_markdown_iframe b64\<close> is the call of
  \<open>st.markdown\<close> with the frame of fixed size whose source is the data URI of the
  base64 text \<open>b64\<close>.
\<close>

datatype element =
    St_warning message
  | St_error message
  | St_success message
  | St_download_button (button_label: pystr) (button_data: bytes) (button_file_name: pystr)
      (button_mime: pystr) (button_help: pystr)
  | St_markdown_iframe pystr

text \<open>
  The trace of one run: the reads of the data source, the HTTP requests and the elements
  put on the page, in the order in which they happen. \<open>Uncaught t\<close> ends the trace of a
  run that stops with an exception that no handler of the program catches.
\<close>

datatype event = Sheet_read | Http_get pystr | Ui element | Uncaught pystr

section \<open>The loader: \<open>get_google_sheet_data\<close>\<close>

type_synonym snapshot = "(pystr \<times> pystr) list"

text \<open>
  \<open>row_imei\<close> and \<open>row_pdf_url\<close> are the local variables \<open>imei\<close> and \<open>pdf_url\<close> of the
  loop (lines 59 and 60). The dictionary \<open>imei_data\<close> keeps its keys in insertion order and an assignment to an
  existing key replaces the value in place: this is \<open>AList.update\<close>. The right-hand side
  \<open>pdf_url.strip()\<close> of the assignment is evaluated first and raises for a value that is
  not a string.
\<close>

definition row_imei :: "row \<Rightarrow> pystr" where
  "row_imei row = py_str (map_of row IMEI_COLUMN_HEADER)"

definition row_pdf_url :: "row \<Rightarrow> cell option" where
  "row_pdf_url row = map_of row PDF_URL_COLUMN_HEADER"

fun build_imei_data :: "row list \<Rightarrow> snapshot \<Rightarrow> py_exception + snapshot" where
  "build_imei_data [] imei_data = Inr imei_data"
| "build_imei_data (row # records) imei_data =
     (if row_imei row \<noteq> [] \<and> truthy (row_pdf_url row)
      then (case strip_attr (row_pdf_url row) of
              Inl e \<Rightarrow> Inl e
            | Inr v \<Rightarrow> build_imei_data records (AList.update (strip (row_imei row)) v imei_data))
      else build_imei_data records imei_data)"

text \<open>
  The body of the \<open>try\<close>. Its calls to the credentials, to the client, to the spreadsheet
  and to the worksheet (lines 39 to 54) either raise or give the records: this outcome is
  the argument \<open>sheet\<close>.
\<close>

definition load_records :: "py_exception + row list \<Rightarrow> py_exception + snapshot" where
  "load_records sheet =
     (case sheet of Inl e \<Rightarrow> Inl e | Inr records \<Rightarrow> build_imei_data records [])"

text \<open>The three \<open>except\<close> clauses, in the order of the source.\<close>

fun load_error_message :: "config \<Rightarrow> py_exception \<Rightarrow> message" where
  "load_error_message cfg SpreadsheetNotFound = MsgSpreadsheetNotFound (SPREADSHEET_NAME cfg)"
| "load_error_message cfg WorksheetNotFound =
     MsgWorksheetNotFound (WORKSHEET_NAME cfg) (SPREADSHEET_NAME cfg)"
| "load_error_message cfg e = MsgLoadFailed e"

definition get_google_sheet_data ::
  "config \<Rightarrow> py_exception + row list \<Rightarrow> element list \<times> snapshot option" where
  "get_google_sheet_data cfg sheet =
     (case load_records sheet of
        Inr imei_data \<Rightarrow> ([], Some imei_data)
      | Inl e \<Rightarrow> ([St_error (load_error_message cfg e)], None))"

section \<open>The world of one run\<close>

record response =
  status_code :: nat
  content :: "raised + bytes"

text \<open>
  What one run of the script finds outside the program: the time in seconds, the digit
  table of the interpreter, the exception, if any, with which building the credentials
  and the client fails before anything is sent to the data source (lines 39 to 44), the
  outcome of opening the spreadsheet and reading the records (lines 47 to 54), the outcome
  of \<open>requests.get\<close> for each URL (reading the body of a streamed response can fail too),
  and the exception text, if any, with which embedding the PDF in the page fails.
\<close>

record world =
  clock :: nat
  unicode_digit :: "codepoint \<Rightarrow> bool"
  credentials_error :: "py_exception option"
  sheet_outcome :: "py_exception + row list"
  requests_get :: "pystr \<Rightarrow> raised + response"
  embed_raises :: "pystr option"

text \<open>The outcome of lines 39 to 54, the argument of \<open>get_google_sheet_data\<close>.\<close>

definition loader_outcome :: "world \<Rightarrow> py_exception + row list" where
  "loader_outcome w =
     (case credentials_error w of Some e \<Rightarrow> Inl e | None \<Rightarrow> sheet_outcome w)"

section \<open>The cache of the loader\<close>

text \<open>
  Modelled from the spec: the decorator \<open>st.cache_data(ttl=600)\<close> of line 22 is code of
  the Streamlit library, which is not among the sources. Following the caching contract of
  the specification, the result of the loader is one process-wide value with the time at
  which it was loaded; it is reused while \<open>now - loaded_at > ttl\<close> is false, and the next
  call after that runs the loader again and stores its result. The elements the loader
  put on the page are stored with the value and shown again when the value is reused.
\<close>

record cache_entry =
  loaded_at :: nat
  stored_outputs :: "element list"
  stored_value :: "snapshot option"

definition ttl :: nat where
  "ttl = 600"

text \<open>
  Modelled from the spec: the expiry check of the cache, which is part of the Streamlit
  decorator and not of the sources; the specification gives it as
  \<open>now - loaded_at > ttl\<close>.
\<close>

definition expired :: "nat \<Rightarrow> cache_entry \<Rightarrow> bool" where
  "expired now e \<longleftrightarrow> now > loaded_at e + ttl"

text \<open>
  Modelled from the spec: what the decorator does on a call without a usable entry. It
  runs the loader and stores the result with the time. The run reads the data source
  unless building the credentials has failed before.
\<close>

definition sheet_reads :: "world \<Rightarrow> event list" where
  "sheet_reads w = (case credentials_error w of Some e \<Rightarrow> [] | None \<Rightarrow> [Sheet_read])"

definition run_loader ::
  "config \<Rightarrow> world \<Rightarrow> event list \<times> snapshot option \<times> cache_entry option" where
  "run_loader cfg w =
     (case get_google_sheet_data cfg (loader_outcome w) of
        (outs, v) \<Rightarrow>
          (sheet_reads w @ map Ui outs, v,
           Some \<lparr>loaded_at = clock w, stored_outputs = outs, stored_value = v\<rparr>))"

text \<open>
  Modelled from the spec: the decorated function, as the handler calls it. Within the time
  to live it reuses the stored value without running the loader; otherwise it runs the
  loader again.
\<close>

definition cached_get_google_sheet_data ::
  "config \<Rightarrow> world \<Rightarrow> cache_entry option \<Rightarrow> event list \<times> snapshot option \<times> cache_entry option"
  where
  "cached_get_google_sheet_data cfg w cache =
     (case cache of
        None \<Rightarrow> run_loader cfg w
      | Some e \<Rightarrow>
          if expired (clock w) e then run_loader cfg w
          else (map Ui (stored_outputs e), stored_value e, cache))"

section \<open>The fetcher: \<open>download_pdf_as_bytes\<close>\<close>

text \<open>
  \<open>response.raise_for_status()\<close> raises for the status codes 4xx and 5xx, as the comment
  of line 87 says. The \<open>except\<close> clause of line 89 catches the exceptions of the class
  \<open>RequestException\<close>; an exception of another class leaves the function, which then
  neither reports an error nor returns: the outcome \<open>Inl t\<close> of \<open>download_pdf_as_bytes\<close>.
\<close>

definition raise_for_status :: "response \<Rightarrow> request_exception option" where
  "raise_for_status r =
     (if 400 \<le> status_code r \<and> status_code r < 600 then Some (HTTPError (status_code r))
      else None)"

definition request_content :: "world \<Rightarrow> pystr \<Rightarrow> raised + bytes" where
  "request_content w pdf_url =
     (case requests_get w pdf_url of
        Inl e \<Rightarrow> Inl e
      | Inr r \<Rightarrow>
          (case raise_for_status r of
             Some e \<Rightarrow> Inl (RequestException e)
           | None \<Rightarrow> content r))"

definition download_pdf_as_bytes ::
  "world \<Rightarrow> pystr \<Rightarrow> event list \<times> (pystr + bytes option)" where
  "download_pdf_as_bytes w pdf_url =
     (case request_content w pdf_url of
        Inr b \<Rightarrow> ([Http_get pdf_url], Inr (Some b))
      | Inl (RequestException e) \<Rightarrow>
          ([Http_get pdf_url, Ui (St_error (MsgDownloadFailed pdf_url e))], Inr None)
      | Inl (NotRequestException t) \<Rightarrow> ([Http_get pdf_url], Inl t))"

section \<open>The presenter: \<open>display_pdf_in_streamlit\<close>\<close>

definition b64_alphabet :: pystr where
  "b64_alphabet =
     of_ascii ''ABCDEFGHIJKLMNOPQRSTUVWXYZabcdefghijklmnopqrstuvwxyz0123456789+/''"

definition b64_char :: "nat \<Rightarrow> codepoint" where
  "b64_char n = b64_alphabet ! (n mod 64)"

fun b64encode :: "bytes \<Rightarrow> pystr" where
  "b64encode [] = []"
| "b64encode [a] =
     [b64_char (unat a div 4), b64_char (unat a mod 4 * 16), 61, 61]"
| "b64encode [a, b] =
     [b64_char (unat a div 4), b64_char (unat a mod 4 * 16 + unat b div 16),
      b64_char (unat b mod 16 * 4), 61]"
| "b64encode (a # b # c # rest) =
     [b64_char (unat a div 4), b64_char (unat a mod 4 * 16 + unat b div 16),
      b64_char (unat b mod 16 * 4 + unat c div 64), b64_char (unat c mod 64)] @ b64encode rest"

definition download_button :: "bytes \<Rightarrow> element" where
  "download_button pdf_bytes =
     St_download_button (of_ascii ''Descargar PDF'') pdf_bytes (of_ascii ''documento_imei.pdf'')
       (of_ascii ''application/pdf'')
       (of_ascii ''Haz clic para descargar el PDF asociado al IMEI.'')"

text \<open>
  \<open>if pdf_bytes:\<close> is false for \<open>None\<close> and for the empty byte string.
\<close>

definition display_pdf_in_streamlit :: "world \<Rightarrow> bytes option \<Rightarrow> element list" where
  "display_pdf_in_streamlit w pdf_bytes =
     (case pdf_bytes of
        None \<Rightarrow> [St_warning MsgNoPdf]
      | Some b \<Rightarrow>
          if b = [] then [St_warning MsgNoPdf]
          else download_button b #
            (case embed_raises w of
               None \<Rightarrow> [St_markdown_iframe (b64encode b)]
             | Some detail \<Rightarrow> [St_warning (MsgEmbedFailed detail)]))"

section \<open>The handler of the search button\<close>

text \<open>
  \<open>if imei_data_map:\<close> is false for \<open>None\<close> and for the empty dictionary;
  \<open>if pdf_url:\<close> is false for \<open>None\<close> and for the empty string. An exception that
  leaves \<open>download_pdf_as_bytes\<close> is caught nowhere: the run ends there, before the
  presenter is called.
\<close>

definition show_result :: "world \<Rightarrow> pystr \<Rightarrow> snapshot option \<Rightarrow> event list" where
  "show_result w imei_input imei_data_map =
     (case imei_data_map of
        None \<Rightarrow> []
      | Some m \<Rightarrow>
          if m = [] then []
          else (case map_of m imei_input of
                  None \<Rightarrow> [Ui (St_error (MsgNotFound imei_input))]
                | Some pdf_url \<Rightarrow>
                    if pdf_url = [] then [Ui (St_error (MsgNotFound imei_input))]
                    else (case download_pdf_as_bytes w pdf_url of
                            (evs, Inl t) \<Rightarrow>
                              Ui (St_success (MsgFound imei_input)) # evs @ [Uncaught t]
                          | (evs, Inr pdf_bytes) \<Rightarrow>
                              Ui (St_success (MsgFound imei_input)) # evs @
                              map Ui (display_pdf_in_streamlit w pdf_bytes))))"

definition search ::
  "config \<Rightarrow> world \<Rightarrow> cache_entry option \<Rightarrow> pystr \<Rightarrow> event list \<times> cache_entry option" where
  "search cfg w cache imei_input =
     (if imei_input = [] then ([Ui (St_warning MsgEnterImei)], cache)
      else if length imei_input \<noteq> 15 \<or> \<not> isdigit (unicode_digit w) imei_input
      then ([Ui (St_warning MsgImeiFormat)], cache)
      else (case cached_get_google_sheet_data cfg w cache of
              (evs, imei_data_map, cache') \<Rightarrow>
                (evs @ show_result w imei_input imei_data_map, cache')))"

text \<open>The events of a trace that reach outside the program, and the HTTP requests among them.\<close>

fun external :: "event \<Rightarrow> bool" where
  "external Sheet_read = True"
| "external (Http_get url) = True"
| "external (Ui el) = False"
| "external (Uncaught t) = False"

fun is_http_get :: "event \<Rightarrow> bool" where
  "is_http_get (Http_get url) = True"
| "is_http_get e = False"

text \<open>
  The loader puts nothing on the page when it returns a mapping, so a cache entry that
  holds a mapping holds no elements.
\<close>

definition cache_wf :: "cache_entry option \<Rightarrow> bool" where
  "cache_wf cache =
     (case cache of
        None \<Rightarrow> True
      | Some e \<Rightarrow> (case stored_value e of None \<Rightarrow> True | Some m \<Rightarrow> stored_outputs e = []))"

section \<open>Sample inputs\<close>

definition sample_config :: config where
  "sample_config = \<lparr>SPREADSHEET_NAME = of_ascii ''Inventario'', WORKSHEET_NAME = of_ascii ''Hoja1''\<rparr>"

definition sample_imei :: pystr where
  "sample_imei = of_ascii ''123456789012345''"

definition sample_url :: pystr where
  "sample_url = of_ascii ''https://example.com/doc.pdf''"

definition sample_pdf :: bytes where
  "sample_pdf = [37, 80, 68, 70, 45, 49, 46, 52]"

definition sample_row :: "pystr \<Rightarrow> pystr \<Rightarrow> row" where
  "sample_row imei pdf_url =
     [(IMEI_COLUMN_HEADER, CStr imei), (PDF_URL_COLUMN_HEADER, CStr pdf_url)]"

definition sample_world :: world where
  "sample_world =
     \<lparr>clock = 1000,
      unicode_digit = ascii_digit,
      credentials_error = None,
      sheet_outcome = Inr [sample_row sample_imei sample_url],
      requests_get = (\<lambda>url. if url = sample_url
                            then Inr \<lparr>status_code = 200, content = Inr sample_pdf\<rparr>
                            else Inr \<lparr>status_code = 404, content = Inr []\<rparr>),
      embed_raises = None\<rparr>"

section \<open>Properties\<close>

lemmas sample_defs =
  sample_config_def sample_imei_def sample_url_def sample_pdf_def sample_row_def
  sample_world_def of_ascii_def ascii_digit_def IMEI_COLUMN_HEADER_def
  PDF_URL_COLUMN_HEADER_def

subsection \<open>Validation of the input\<close>

text \<open>
  Claim C1. For every input string that is empty, whose length is not 15, or that contains
  a character that is not a digit, the search stops at validation: the whole trace of the
  run is one warning, so neither the data source is read nor an HTTP request made, and the
  cache is left as it was.
\<close>

theorem search_rejects_malformed:
  assumes "imei_input = [] \<or> length imei_input \<noteq> 15 \<or>
           (\<exists>c\<in>set imei_input. \<not> unicode_digit w c)"
  shows "search cfg w cache imei_input =
           ([Ui (St_warning (if imei_input = [] then MsgEnterImei else MsgImeiFormat))], cache)
         \<and> \<not> list_ex external (fst (search cfg w cache imei_input))"
proof -
  have "imei_input \<noteq> [] \<Longrightarrow>
        length imei_input \<noteq> 15 \<or> \<not> isdigit (unicode_digit w) imei_input"
    using assms by (auto simp: isdigit_def list_all_iff)
  then show ?thesis
    by (auto simp: search_def)
qed

theorem search_rejects_malformed_witness:
  "search sample_config sample_world None (of_ascii ''12345678901234a'') =
     ([Ui (St_warning MsgImeiFormat)], None)
   \<and> search sample_config sample_world None (of_ascii ''12345'') =
     ([Ui (St_warning MsgImeiFormat)], None)
   \<and> search sample_config sample_world None [] = ([Ui (St_warning MsgEnterImei)], None)"
proof -
  have a: "of_ascii ''12345678901234a'' = [] \<or> length (of_ascii ''12345678901234a'') \<noteq> 15
      \<or> (\<exists>c\<in>set (of_ascii ''12345678901234a''). \<not> unicode_digit sample_world c)"
    by (simp add: sample_defs)
  have b: "of_ascii ''12345'' = [] \<or> length (of_ascii ''12345'') \<noteq> 15
      \<or> (\<exists>c\<in>set (of_ascii ''12345''). \<not> unicode_digit sample_world c)"
    by (simp add: sample_defs)
  have c: "([]::pystr) = [] \<or> length ([]::pystr) \<noteq> 15
      \<or> (\<exists>c\<in>set ([]::pystr). \<not> unicode_digit sample_world c)"
    by simp
  have na: "of_ascii ''12345678901234a'' \<noteq> []" and nb: "of_ascii ''12345'' \<noteq> []"
    by (simp_all add: of_ascii_def)
  show ?thesis
    using search_rejects_malformed [OF a, of sample_config None]
      search_rejects_malformed [OF b, of sample_config None]
      search_rejects_malformed [OF c, of sample_config None] na nb
    by simp
qed

subsection \<open>The loader\<close>

lemmas loader_defs =
  get_google_sheet_data_def load_records_def row_imei_def row_pdf_url_def strip_def
  py_isspace_def

lemma build_imei_data_append:
  "build_imei_data (xs @ ys) acc =
     (case build_imei_data xs acc of Inl e \<Rightarrow> Inl e | Inr a \<Rightarrow> build_imei_data ys a)"
  by (induction xs arbitrary: acc) (auto split: sum.splits)

lemma build_imei_data_keeps_key:
  "build_imei_data records acc = Inr m \<Longrightarrow>
   \<forall>r\<in>set records. row_imei r \<noteq> [] \<and> truthy (row_pdf_url r) \<longrightarrow> strip (row_imei r) \<noteq> k \<Longrightarrow>
   map_of m k = map_of acc k"
proof (induction records arbitrary: acc)
  case Nil
  then show ?case by simp
next
  case (Cons r records)
  then show ?case
    by (auto split: if_splits sum.splits simp: update_conv')
qed

lemma strip_attr_Inr:
  "strip_attr c = Inr v \<Longrightarrow> \<exists>s. c = Some (CStr s) \<and> v = strip s"
  by (cases c rule: strip_attr.cases) auto

lemma build_imei_data_raises_AttributeError:
  "build_imei_data records acc = Inl e \<Longrightarrow> \<exists>t. e = AttributeError t"
proof (induction records arbitrary: acc)
  case Nil
  then show ?case by simp
next
  case (Cons r records)
  show ?case
  proof (cases "row_imei r \<noteq> [] \<and> truthy (row_pdf_url r)")
    case False
    with Cons show ?thesis by auto
  next
    case True
    show ?thesis
    proof (cases "strip_attr (row_pdf_url r)")
      case (Inl x)
      with True Cons.prems have "e = x" by simp
      with Inl show ?thesis by (cases "row_pdf_url r" rule: strip_attr.cases) auto
    next
      case (Inr v)
      with True Cons show ?thesis by auto
    qed
  qed
qed

lemma strip_attr_not_str:
  "\<not> is_str c \<Longrightarrow> \<exists>e. strip_attr c = Inl e"
  by (cases c rule: strip_attr.cases) auto

lemma build_imei_data_bad_row:
  "row \<in> set records \<Longrightarrow> row_imei row \<noteq> [] \<Longrightarrow> truthy (row_pdf_url row) \<Longrightarrow>
   \<not> is_str (row_pdf_url row) \<Longrightarrow> \<exists>e. build_imei_data records acc = Inl e"
proof (induction records arbitrary: acc)
  case Nil
  then show ?case by simp
next
  case (Cons r records)
  show ?case
  proof (cases "r = row")
    case True
    with Cons.prems strip_attr_not_str [of "row_pdf_url row"] show ?thesis by auto
  next
    case False
    with Cons show ?thesis by (auto split: sum.splits)
  qed
qed

lemma strip_trimmed: "trimmed (strip s)"
proof (cases "strip s = []")
  case True
  then show ?thesis by (simp add: trimmed_def)
next
  case False
  let ?t = "dropWhile py_isspace s"
  let ?u = "dropWhile py_isspace (rev ?t)"
  from False have u: "?u \<noteq> []"
    by (simp add: strip_def)
  then have last: "\<not> py_isspace (last (strip s))"
    using hd_dropWhile [of py_isspace "rev ?t"] by (simp add: strip_def last_rev)
  have "rev ?t = takeWhile py_isspace (rev ?t) @ ?u"
    by simp
  then have "?t = rev ?u @ rev (takeWhile py_isspace (rev ?t))"
    by (metis rev_append rev_rev_ident)
  then have "hd ?t = hd (strip s)"
    using u by (metis hd_append2 rev_is_Nil_conv strip_def)
  moreover have "?t \<noteq> []"
  proof
    assume empty: "?t = []"
    have "?u = []"
      unfolding empty by simp
    with u show False by simp
  qed
  ultimately have "\<not> py_isspace (hd (strip s))"
    using hd_dropWhile [of py_isspace s] by simp
  with last show ?thesis by (simp add: trimmed_def)
qed

lemma set_update_cases:
  "p \<in> set (AList.update k v al) \<Longrightarrow> p = (k, v) \<or> p \<in> set al"
  by (induction al) (auto split: if_splits)

lemma build_imei_data_entries:
  "build_imei_data records acc = Inr m \<Longrightarrow> (k, v) \<in> set m \<Longrightarrow>
   (k, v) \<in> set acc \<or> (\<exists>a b. k = strip a \<and> v = strip b)"
proof (induction records arbitrary: acc)
  case Nil
  then show ?case by simp
next
  case (Cons r records)
  show ?case
  proof (cases "row_imei r \<noteq> [] \<and> truthy (row_pdf_url r)")
    case False
    with Cons show ?thesis by auto
  next
    case True
    with Cons.prems(1) obtain s where s: "row_pdf_url r = Some (CStr s)"
      and tl: "build_imei_data records (AList.update (strip (row_imei r)) (strip s) acc) = Inr m"
      by (cases "row_pdf_url r" rule: strip_attr.cases) (auto split: sum.splits)
    from Cons.IH [OF tl Cons.prems(2)] show ?thesis
      using set_update_cases [of "(k, v)" "strip (row_imei r)" "strip s" acc] by auto
  qed
qed

lemma snapshot_entries_trimmed:
  assumes "get_google_sheet_data cfg sheet = (outs, Some m)" and "(k, v) \<in> set m"
  shows "trimmed k \<and> trimmed v"
proof -
  from assms(1) obtain records where "sheet = Inr records" "build_imei_data records [] = Inr m"
    by (auto simp: get_google_sheet_data_def load_records_def split: sum.splits)
  with build_imei_data_entries [of records "[]" m k v] assms(2) strip_trimmed
  show ?thesis by auto
qed

lemma empty_cells_skipped:
  assumes "row_imei row = [] \<or> row_pdf_url row = None \<or> row_pdf_url row = Some (CStr [])"
  shows "get_google_sheet_data cfg (Inr (before @ row # after)) =
         get_google_sheet_data cfg (Inr (before @ after))"
proof -
  from assms have step: "build_imei_data (row # after) a = build_imei_data after a" for a
    by auto
  have "build_imei_data (before @ row # after) [] = build_imei_data (before @ after) []"
    by (simp only: build_imei_data_append step)
  then show ?thesis
    by (simp add: get_google_sheet_data_def load_records_def)
qed

text \<open>
  Claim C2 (all keys and values of a snapshot are non-empty trimmed strings, and a record
  whose identifier or reference value is missing or empty is skipped). The loader does not
  do this. \<open>str(row.get(...))\<close> turns the \<open>None\<close> of a record without the identifier
  column into the string \<open>None\<close>, which is true, so the record is stored under the key
  \<open>None\<close>; and the test for emptiness comes before \<open>strip\<close>, so a cell of white space only
  is stored as an empty key or an empty value. The comments of lines 58 and 62 say that
  both values must exist and be non-empty. What the loader does keep: every stored key and
  value is trimmed (\<open>snapshot_entries_trimmed\<close>), and a record with an empty identifier
  cell, or with a missing or empty reference value, changes nothing
  (\<open>empty_cells_skipped\<close>).
\<close>

theorem missing_identifier_not_skipped:
  "get_google_sheet_data sample_config (Inr [[(PDF_URL_COLUMN_HEADER, CStr sample_url)]]) =
     ([], Some [(of_ascii ''None'', sample_url)])
   \<and> get_google_sheet_data sample_config (Inr [sample_row (of_ascii ''   '') sample_url]) =
     ([], Some [([], sample_url)])
   \<and> get_google_sheet_data sample_config (Inr [sample_row sample_imei (of_ascii ''   '')]) =
     ([], Some [(sample_imei, [])])"
  by (simp add: loader_defs sample_defs)

text \<open>
  Claim C8. Among the records that the loop stores (identifier text non-empty, reference
  value true), the last one in row order with a given trimmed key decides the value: when
  the load returns a snapshot and no stored record after \<open>row\<close> has the trimmed key of
  \<open>row\<close>, the snapshot maps that key to the trimmed reference value of \<open>row\<close>, whatever
  the records before it hold.
\<close>

theorem last_record_wins:
  assumes "get_google_sheet_data cfg (Inr (before @ row # after)) = (outs, Some imei_data)"
    and "row_imei row \<noteq> []" and "truthy (row_pdf_url row)"
    and "\<forall>r\<in>set after. row_imei r \<noteq> [] \<and> truthy (row_pdf_url r) \<longrightarrow>
           strip (row_imei r) \<noteq> strip (row_imei row)"
  shows "\<exists>s. row_pdf_url row = Some (CStr s) \<and>
             map_of imei_data (strip (row_imei row)) = Some (strip s)"
proof -
  from assms(1) have all: "build_imei_data (before @ row # after) [] = Inr imei_data"
    by (auto simp: get_google_sheet_data_def load_records_def split: sum.splits)
  then obtain a where a: "build_imei_data before [] = Inr a"
    and rest: "build_imei_data (row # after) a = Inr imei_data"
    by (auto simp: build_imei_data_append split: sum.splits)
  from rest assms(2,3) obtain v where v: "strip_attr (row_pdf_url row) = Inr v"
    and tl: "build_imei_data after (AList.update (strip (row_imei row)) v a) = Inr imei_data"
    by (auto split: sum.splits)
  from strip_attr_Inr [OF v] obtain s where s: "row_pdf_url row = Some (CStr s)" "v = strip s"
    by blast
  from build_imei_data_keeps_key [OF tl assms(4)]
  have "map_of imei_data (strip (row_imei row)) = Some v"
    by (simp add: update_conv')
  with s show ?thesis by simp
qed

theorem last_record_wins_witness:
  "\<exists>s. row_pdf_url (sample_row (of_ascii '' 123456789012345 '') (of_ascii ''https://example.com/new.pdf ''))
          = Some (CStr s) \<and>
       map_of [(sample_imei, of_ascii ''https://example.com/new.pdf'')]
         (strip (row_imei (sample_row (of_ascii '' 123456789012345 '') (of_ascii ''https://example.com/new.pdf ''))))
        = Some (strip s)"
proof -
  let ?row = "sample_row (of_ascii '' 123456789012345 '') (of_ascii ''https://example.com/new.pdf '')"
  let ?after = "[sample_row (of_ascii ''123456789012345'') [], sample_row [] sample_url]"
  have load: "get_google_sheet_data sample_config
        (Inr ([sample_row sample_imei sample_url] @ ?row # ?after)) =
      ([], Some [(sample_imei, of_ascii ''https://example.com/new.pdf'')])"
    by (simp add: loader_defs sample_defs)
  have imei: "row_imei ?row \<noteq> []" and url: "truthy (row_pdf_url ?row)"
    by (simp_all add: loader_defs sample_defs)
  have later: "\<forall>r\<in>set ?after. row_imei r \<noteq> [] \<and> truthy (row_pdf_url r) \<longrightarrow>
      strip (row_imei r) \<noteq> strip (row_imei ?row)"
    by (simp add: loader_defs sample_defs)
  show ?thesis
    by (rule last_record_wins [OF load imei url later])
qed

text \<open>
  Claim C10, as stated (any record with a true reference value that is not a string makes
  the whole load return nothing), fails: the guard of line 62 also tests the identifier,
  so a record with an empty identifier cell is skipped before \<open>strip\<close> is reached, and the
  load returns the other rows.
\<close>

theorem blank_identifier_hides_bad_reference:
  "truthy (row_pdf_url [(IMEI_COLUMN_HEADER, CStr []), (PDF_URL_COLUMN_HEADER, CInt 5)])
   \<and> \<not> is_str (row_pdf_url [(IMEI_COLUMN_HEADER, CStr []), (PDF_URL_COLUMN_HEADER, CInt 5)])
   \<and> get_google_sheet_data sample_config
        (Inr [[(IMEI_COLUMN_HEADER, CStr []), (PDF_URL_COLUMN_HEADER, CInt 5)],
              sample_row sample_imei sample_url]) =
       ([], Some [(sample_imei, sample_url)])"
  by (simp add: loader_defs sample_defs)

text \<open>
  Claim C10, amended: if some record has a non-empty identifier text and a true reference
  value that is not a string, then \<open>strip\<close> raises \<open>AttributeError\<close>, the general handler
  reports it, and the load returns nothing, whatever the other records are.
\<close>

theorem non_string_reference_discards_load:
  assumes "row \<in> set records" and "row_imei row \<noteq> []" and "truthy (row_pdf_url row)"
    and "\<not> is_str (row_pdf_url row)"
  shows "\<exists>t. get_google_sheet_data cfg (Inr records) =
               ([St_error (MsgLoadFailed (AttributeError t))], None)"
proof -
  from build_imei_data_bad_row [OF assms] obtain e where e: "build_imei_data records [] = Inl e"
    by blast
  from build_imei_data_raises_AttributeError [OF e] obtain t where "e = AttributeError t"
    by blast
  with e show ?thesis
    by (simp add: get_google_sheet_data_def load_records_def)
qed

theorem non_string_reference_discards_load_witness:
  "\<exists>t. get_google_sheet_data sample_config
         (Inr [sample_row sample_imei sample_url,
               [(IMEI_COLUMN_HEADER, CInt 356938035643809), (PDF_URL_COLUMN_HEADER, CInt 5)]]) =
        ([St_error (MsgLoadFailed (AttributeError t))], None)"
proof -
  let ?bad = "[(IMEI_COLUMN_HEADER, CInt 356938035643809), (PDF_URL_COLUMN_HEADER, CInt 5)]"
  have mem: "?bad \<in> set [sample_row sample_imei sample_url, ?bad]"
    by simp
  have imei: "row_imei ?bad \<noteq> []"
    by (simp add: loader_defs sample_defs str_int_def str_nat.simps [of 356938035643809])
  have url: "truthy (row_pdf_url ?bad)" and nostr: "\<not> is_str (row_pdf_url ?bad)"
    by (simp_all add: loader_defs sample_defs)
  show ?thesis
    by (rule non_string_reference_discards_load [OF mem imei url nostr])
qed

text \<open>
  Claim C4. Whenever the body of the loader raises (in the calls to the data source or in
  the loop), the loader puts exactly one error on the page and returns \<open>None\<close>: the
  error names the spreadsheet when the spreadsheet is missing, the worksheet and the
  spreadsheet when the worksheet is missing, and carries the exception otherwise. The
  loader has no other outcome than a pair of page elements and an optional mapping.
\<close>

theorem load_failure_reported:
  assumes "load_records sheet = Inl e"
  shows "get_google_sheet_data cfg sheet =
           ([St_error (case e of
                         SpreadsheetNotFound \<Rightarrow> MsgSpreadsheetNotFound (SPREADSHEET_NAME cfg)
                       | WorksheetNotFound \<Rightarrow>
                           MsgWorksheetNotFound (WORKSHEET_NAME cfg) (SPREADSHEET_NAME cfg)
                       | AttributeError t \<Rightarrow> MsgLoadFailed e
                       | OtherException t \<Rightarrow> MsgLoadFailed e)], None)"
  using assms by (cases e) (simp_all add: get_google_sheet_data_def)

theorem load_failure_reported_witness:
  "get_google_sheet_data sample_config (Inl SpreadsheetNotFound) =
     ([St_error (MsgSpreadsheetNotFound (of_ascii ''Inventario''))], None)
   \<and> get_google_sheet_data sample_config (Inl WorksheetNotFound) =
     ([St_error (MsgWorksheetNotFound (of_ascii ''Hoja1'') (of_ascii ''Inventario''))], None)
   \<and> get_google_sheet_data sample_config (Inl (OtherException (of_ascii ''invalid_grant''))) =
     ([St_error (MsgLoadFailed (OtherException (of_ascii ''invalid_grant'')))], None)"
proof -
  have a: "load_records (Inl SpreadsheetNotFound) = Inl SpreadsheetNotFound"
    and b: "load_records (Inl WorksheetNotFound) = Inl WorksheetNotFound"
    and c: "load_records (Inl (OtherException (of_ascii ''invalid_grant''))) =
        Inl (OtherException (of_ascii ''invalid_grant''))"
    by (simp_all add: load_records_def)
  show ?thesis
    using load_failure_reported [OF a, of sample_config]
      load_failure_reported [OF b, of sample_config]
      load_failure_reported [OF c, of sample_config]
    by (simp add: sample_config_def)
qed

subsection \<open>The fetcher\<close>


text \<open>
  Claim C5, as stated (every status code of 400 or more is a failure), fails:
  \<open>raise_for_status\<close> raises for the codes 4xx and 5xx only, so a response with the status
  code 600 is returned as content and no error is reported.
\<close>

theorem status_600_is_not_a_failure:
  "download_pdf_as_bytes
     (sample_world\<lparr>requests_get := (\<lambda>url. Inr \<lparr>status_code = 600, content = Inr sample_pdf\<rparr>)\<rparr>)
     sample_url = ([Http_get sample_url], Inr (Some sample_pdf))"
  by (simp add: download_pdf_as_bytes_def request_content_def raise_for_status_def)

text \<open>
  Claim C5, amended: the fetcher makes exactly one request. When the request raises a
  \<open>RequestException\<close> (the class of the network failures of \<open>requests\<close>), when the status
  code is between 400 and 599, or when reading the body raises a \<open>RequestException\<close>, it
  reports an error that carries the URL and the detail and returns no content; when none
  of these happens it returns the whole body. An exception of another class is not caught:
  it leaves the fetcher, which then reports nothing and returns nothing.
\<close>

theorem download_pdf_as_bytes_outcomes:
  "(requests_get w pdf_url = Inl (RequestException e) \<longrightarrow>
      download_pdf_as_bytes w pdf_url =
        ([Http_get pdf_url, Ui (St_error (MsgDownloadFailed pdf_url e))], Inr None))
   \<and> (requests_get w pdf_url = Inr r \<and> 400 \<le> status_code r \<and> status_code r < 600 \<longrightarrow>
      download_pdf_as_bytes w pdf_url =
        ([Http_get pdf_url,
          Ui (St_error (MsgDownloadFailed pdf_url (HTTPError (status_code r))))], Inr None))
   \<and> (requests_get w pdf_url = Inr r \<and> (status_code r < 400 \<or> 600 \<le> status_code r) \<and>
       content r = Inl (RequestException e) \<longrightarrow>
      download_pdf_as_bytes w pdf_url =
        ([Http_get pdf_url, Ui (St_error (MsgDownloadFailed pdf_url e))], Inr None))
   \<and> (requests_get w pdf_url = Inr r \<and> (status_code r < 400 \<or> 600 \<le> status_code r) \<and>
       content r = Inr b \<longrightarrow>
      download_pdf_as_bytes w pdf_url = ([Http_get pdf_url], Inr (Some b)))
   \<and> (requests_get w pdf_url = Inl (NotRequestException t) \<longrightarrow>
      download_pdf_as_bytes w pdf_url = ([Http_get pdf_url], Inl t))
   \<and> (requests_get w pdf_url = Inr r \<and> (status_code r < 400 \<or> 600 \<le> status_code r) \<and>
       content r = Inl (NotRequestException t) \<longrightarrow>
      download_pdf_as_bytes w pdf_url = ([Http_get pdf_url], Inl t))"
  by (auto simp: download_pdf_as_bytes_def request_content_def raise_for_status_def)

theorem download_pdf_as_bytes_outcomes_witness:
  "download_pdf_as_bytes
      (sample_world\<lparr>requests_get :=
         (\<lambda>url. Inl (RequestException (NetworkError (of_ascii ''timed out''))))\<rparr>)
      sample_url =
     ([Http_get sample_url,
       Ui (St_error (MsgDownloadFailed sample_url (NetworkError (of_ascii ''timed out''))))],
      Inr None)
   \<and> download_pdf_as_bytes sample_world (of_ascii ''https://example.com/gone.pdf'') =
     ([Http_get (of_ascii ''https://example.com/gone.pdf''),
       Ui (St_error (MsgDownloadFailed (of_ascii ''https://example.com/gone.pdf'') (HTTPError 404)))],
      Inr None)
   \<and> download_pdf_as_bytes
        (sample_world\<lparr>requests_get :=
           (\<lambda>url. Inr \<lparr>status_code = 200,
                       content = Inl (RequestException (NetworkError (of_ascii ''reset'')))\<rparr>)\<rparr>)
        sample_url =
     ([Http_get sample_url,
       Ui (St_error (MsgDownloadFailed sample_url (NetworkError (of_ascii ''reset''))))], Inr None)
   \<and> download_pdf_as_bytes sample_world sample_url = ([Http_get sample_url], Inr (Some sample_pdf))
   \<and> download_pdf_as_bytes
        (sample_world\<lparr>requests_get :=
           (\<lambda>url. Inl (NotRequestException (of_ascii ''LocationParseError'')))\<rparr>)
        sample_url =
     ([Http_get sample_url], Inl (of_ascii ''LocationParseError''))
   \<and> download_pdf_as_bytes
        (sample_world\<lparr>requests_get :=
           (\<lambda>url. Inr \<lparr>status_code = 200,
                       content = Inl (NotRequestException (of_ascii ''MemoryError''))\<rparr>)\<rparr>)
        sample_url =
     ([Http_get sample_url], Inl (of_ascii ''MemoryError''))"
proof -
  let ?w1 = "sample_world\<lparr>requests_get :=
      (\<lambda>url. Inl (RequestException (NetworkError (of_ascii ''timed out''))))\<rparr>"
  let ?r3 = "\<lparr>status_code = 200,
      content = Inl (RequestException (NetworkError (of_ascii ''reset'')))\<rparr>"
  let ?w3 = "sample_world\<lparr>requests_get := (\<lambda>url. Inr ?r3)\<rparr>"
  let ?w5 = "sample_world\<lparr>requests_get :=
      (\<lambda>url. Inl (NotRequestException (of_ascii ''LocationParseError'')))\<rparr>"
  let ?r6 = "\<lparr>status_code = 200,
      content = Inl (NotRequestException (of_ascii ''MemoryError''))\<rparr>"
  let ?w6 = "sample_world\<lparr>requests_get := (\<lambda>url. Inr ?r6)\<rparr>"
  let ?gone = "of_ascii ''https://example.com/gone.pdf''"
  have a: "requests_get ?w1 sample_url =
      Inl (RequestException (NetworkError (of_ascii ''timed out'')))"
    by simp
  have b: "requests_get sample_world ?gone = Inr \<lparr>status_code = 404, content = Inr []\<rparr>"
    by (simp add: sample_defs)
  have c: "requests_get ?w3 sample_url = Inr ?r3"
    by simp
  have d: "requests_get sample_world sample_url =
      Inr \<lparr>status_code = 200, content = Inr sample_pdf\<rparr>"
    by (simp add: sample_world_def)
  have e: "requests_get ?w5 sample_url =
      Inl (NotRequestException (of_ascii ''LocationParseError''))"
    by simp
  have f: "requests_get ?w6 sample_url = Inr ?r6"
    by simp
  have 1: "download_pdf_as_bytes ?w1 sample_url =
     ([Http_get sample_url,
       Ui (St_error (MsgDownloadFailed sample_url (NetworkError (of_ascii ''timed out''))))],
      Inr None)"
    using download_pdf_as_bytes_outcomes
      [of ?w1 sample_url "NetworkError (of_ascii ''timed out'')"] a
    by simp
  have 2: "download_pdf_as_bytes sample_world ?gone =
     ([Http_get ?gone, Ui (St_error (MsgDownloadFailed ?gone (HTTPError 404)))], Inr None)"
    using download_pdf_as_bytes_outcomes
      [of sample_world ?gone _ "\<lparr>status_code = 404, content = Inr []\<rparr>"] b
    by simp
  have 3: "download_pdf_as_bytes ?w3 sample_url =
     ([Http_get sample_url,
       Ui (St_error (MsgDownloadFailed sample_url (NetworkError (of_ascii ''reset''))))], Inr None)"
    using download_pdf_as_bytes_outcomes
      [of ?w3 sample_url "NetworkError (of_ascii ''reset'')" ?r3] c
    by simp
  have 4: "download_pdf_as_bytes sample_world sample_url =
      ([Http_get sample_url], Inr (Some sample_pdf))"
    using download_pdf_as_bytes_outcomes
      [of sample_world sample_url _ "\<lparr>status_code = 200, content = Inr sample_pdf\<rparr>"
        sample_pdf] d
    by simp
  have 5: "download_pdf_as_bytes ?w5 sample_url =
      ([Http_get sample_url], Inl (of_ascii ''LocationParseError''))"
    using download_pdf_as_bytes_outcomes
      [of ?w5 sample_url _ _ _ "of_ascii ''LocationParseError''"] e
    by simp
  have 6: "download_pdf_as_bytes ?w6 sample_url =
      ([Http_get sample_url], Inl (of_ascii ''MemoryError''))"
    using download_pdf_as_bytes_outcomes
      [of ?w6 sample_url _ ?r6 _ "of_ascii ''MemoryError''"] f
    by simp
  from 1 2 3 4 5 6 show ?thesis by simp
qed

subsection \<open>The presenter\<close>

text \<open>
  Claim C6, as stated (present content is always offered for download), fails:
  \<open>if pdf_bytes:\<close> is false for the empty byte string too, so a body of zero bytes gets
  the warning and no download button.
\<close>

theorem empty_content_gets_no_download:
  "display_pdf_in_streamlit sample_world (Some []) = [St_warning MsgNoPdf]"
  by (simp add: display_pdf_in_streamlit_def)

text \<open>
  Claim C6, amended: for absent content and for content of zero bytes the presenter shows
  the warning that no PDF is available and no download button. For content of at least
  one byte it first shows a download button that serves exactly these bytes as
  \<open>documento_imei.pdf\<close> with the type \<open>application/pdf\<close>; then it shows the embedded
  frame, or, when embedding raises, a warning: the button stays in both cases.
\<close>

theorem display_pdf_in_streamlit_outcomes:
  "display_pdf_in_streamlit w None = [St_warning MsgNoPdf]
   \<and> display_pdf_in_streamlit w (Some []) = [St_warning MsgNoPdf]
   \<and> (b \<noteq> [] \<longrightarrow>
        hd (display_pdf_in_streamlit w (Some b)) =
          St_download_button (of_ascii ''Descargar PDF'') b (of_ascii ''documento_imei.pdf'')
            (of_ascii ''application/pdf'')
            (of_ascii ''Haz clic para descargar el PDF asociado al IMEI.'')
        \<and> tl (display_pdf_in_streamlit w (Some b)) =
          (case embed_raises w of
             None \<Rightarrow> [St_markdown_iframe (b64encode b)]
           | Some detail \<Rightarrow> [St_warning (MsgEmbedFailed detail)]))"
  by (simp add: display_pdf_in_streamlit_def download_button_def)

theorem display_pdf_in_streamlit_outcomes_witness:
  "display_pdf_in_streamlit sample_world (Some sample_pdf) =
     [St_download_button (of_ascii ''Descargar PDF'') sample_pdf (of_ascii ''documento_imei.pdf'')
        (of_ascii ''application/pdf'') (of_ascii ''Haz clic para descargar el PDF asociado al IMEI.''),
      St_markdown_iframe (of_ascii ''JVBERi0xLjQ='')]
   \<and> display_pdf_in_streamlit (sample_world\<lparr>embed_raises := Some (of_ascii ''too large'')\<rparr>)
        (Some sample_pdf) =
     [St_download_button (of_ascii ''Descargar PDF'') sample_pdf (of_ascii ''documento_imei.pdf'')
        (of_ascii ''application/pdf'') (of_ascii ''Haz clic para descargar el PDF asociado al IMEI.''),
      St_warning (MsgEmbedFailed (of_ascii ''too large''))]"
proof -
  let ?w = "sample_world\<lparr>embed_raises := Some (of_ascii ''too large'')\<rparr>"
  have ne: "sample_pdf \<noteq> []"
    by (simp add: sample_pdf_def)
  have len: "display_pdf_in_streamlit sample_world (Some sample_pdf) \<noteq> []"
    "display_pdf_in_streamlit ?w (Some sample_pdf) \<noteq> []"
    using ne by (simp_all add: display_pdf_in_streamlit_def)
  have b64: "b64encode sample_pdf = of_ascii ''JVBERi0xLjQ=''"
    by (simp add: sample_pdf_def b64_char_def b64_alphabet_def of_ascii_def)
  have e1: "embed_raises sample_world = None" and e2: "embed_raises ?w = Some (of_ascii ''too large'')"
    by (simp_all add: sample_world_def)
  from display_pdf_in_streamlit_outcomes [of sample_world sample_pdf] ne e1 b64 len(1)
  have "display_pdf_in_streamlit sample_world (Some sample_pdf) =
     [St_download_button (of_ascii ''Descargar PDF'') sample_pdf (of_ascii ''documento_imei.pdf'')
        (of_ascii ''application/pdf'') (of_ascii ''Haz clic para descargar el PDF asociado al IMEI.''),
      St_markdown_iframe (of_ascii ''JVBERi0xLjQ='')]"
    by (cases "display_pdf_in_streamlit sample_world (Some sample_pdf)") simp_all
  moreover from display_pdf_in_streamlit_outcomes [of ?w sample_pdf] ne e2 len(2)
  have "display_pdf_in_streamlit ?w (Some sample_pdf) =
     [St_download_button (of_ascii ''Descargar PDF'') sample_pdf (of_ascii ''documento_imei.pdf'')
        (of_ascii ''application/pdf'') (of_ascii ''Haz clic para descargar el PDF asociado al IMEI.''),
      St_warning (MsgEmbedFailed (of_ascii ''too large''))]"
    by (cases "display_pdf_in_streamlit ?w (Some sample_pdf)") simp_all
  ultimately show ?thesis by simp
qed

subsection \<open>The handler\<close>

lemma sample_imei_valid:
  "length sample_imei = 15" "isdigit (unicode_digit sample_world) sample_imei"
  by (simp_all add: sample_defs isdigit_def)

lemma sample_imei_nonempty: "sample_imei \<noteq> []"
  by (simp add: sample_defs)


lemma search_preserves_cache_wf:
  "cache_wf cache \<Longrightarrow> cache_wf (snd (search cfg w cache imei_input))"
  by (auto simp: search_def cached_get_google_sheet_data_def run_loader_def cache_wf_def
      get_google_sheet_data_def split: option.splits if_splits sum.splits prod.splits)

lemma cached_loader_no_request:
  "\<not> list_ex is_http_get (fst (cached_get_google_sheet_data cfg w cache))"
  by (auto simp: cached_get_google_sheet_data_def run_loader_def sheet_reads_def list_ex_iff
      split: option.splits prod.splits)

lemma search_reports_miss:
  assumes "length imei_input = 15" and "isdigit (unicode_digit w) imei_input"
    and "cached_get_google_sheet_data cfg w cache = (evs, Some m, cache')"
    and "m \<noteq> []" and "map_of m imei_input = None"
  shows "search cfg w cache imei_input = (evs @ [Ui (St_error (MsgNotFound imei_input))], cache')
         \<and> \<not> list_ex is_http_get (fst (search cfg w cache imei_input))"
proof -
  from assms(1) have "imei_input \<noteq> []" by auto
  with assms have "search cfg w cache imei_input =
      (evs @ [Ui (St_error (MsgNotFound imei_input))], cache')"
    by (simp add: search_def show_result_def)
  moreover have "\<not> list_ex is_http_get evs"
    using cached_loader_no_request [of cfg w cache] assms(3) by simp
  ultimately show ?thesis by simp
qed


text \<open>
  Claim C3 (a validated key that is not in the loaded mapping gets a message that it was
  not found). The handler does not do this when the loaded mapping is empty:
  \<open>if imei_data_map:\<close> is false for the empty dictionary, and the branch it skips is the
  one that reports the miss. The comment of line 158 expects this branch to be skipped
  only when the loader returned \<open>None\<close> and has shown its error; here the loader succeeded
  and nothing at all is shown. For a mapping with at least one entry the miss is reported
  and no request is made (\<open>search_reports_miss\<close>).
\<close>

theorem empty_sheet_search_reports_nothing:
  "search sample_config (sample_world\<lparr>sheet_outcome := Inr []\<rparr>) None sample_imei =
     ([Sheet_read], Some \<lparr>loaded_at = 1000, stored_outputs = [], stored_value = Some []\<rparr>)"
  using sample_imei_valid sample_imei_nonempty
  by (simp add: search_def cached_get_google_sheet_data_def run_loader_def show_result_def
      sheet_reads_def loader_outcome_def get_google_sheet_data_def load_records_def
      sample_world_def)

theorem empty_sheet_search_reports_nothing_witness:
  "Ui (St_error (MsgNotFound sample_imei)) \<notin>
     set (fst (search sample_config (sample_world\<lparr>sheet_outcome := Inr []\<rparr>) None sample_imei))"
  using empty_sheet_search_reports_nothing by simp

text \<open>
  Claim C9. When the loader gives a mapping with no entries, the search for a valid key of
  15 digits adds nothing to the trace of the loader, and that trace holds at most the
  read of the sheet: nothing is put on the page, neither a message that the key was not
  found nor an error, and no request is made.
\<close>

theorem empty_snapshot_is_silent:
  assumes "length imei_input = 15" and "isdigit (unicode_digit w) imei_input"
    and "cache_wf cache"
    and "cached_get_google_sheet_data cfg w cache = (evs, Some [], cache')"
  shows "search cfg w cache imei_input = (evs, cache') \<and> set evs \<subseteq> {Sheet_read}"
proof -
  from assms(1) have ne: "imei_input \<noteq> []" by auto
  have "set evs \<subseteq> {Sheet_read}"
    using assms(3,4)
    by (auto simp: cached_get_google_sheet_data_def run_loader_def cache_wf_def
        sheet_reads_def get_google_sheet_data_def split: option.splits if_splits sum.splits)
  moreover have "search cfg w cache imei_input = (evs, cache')"
    using assms(1,2,4) ne by (simp add: search_def show_result_def)
  ultimately show ?thesis by simp
qed

theorem empty_snapshot_is_silent_witness:
  "search sample_config sample_world
     (Some \<lparr>loaded_at = 900, stored_outputs = [], stored_value = Some []\<rparr>) sample_imei =
   ([], Some \<lparr>loaded_at = 900, stored_outputs = [], stored_value = Some []\<rparr>)"
proof -
  let ?c = "Some \<lparr>loaded_at = 900, stored_outputs = [], stored_value = Some []\<rparr>"
  have wf: "cache_wf ?c"
    by (simp add: cache_wf_def)
  have hit: "cached_get_google_sheet_data sample_config sample_world ?c = ([], Some [], ?c)"
    by (simp add: cached_get_google_sheet_data_def expired_def ttl_def sample_world_def)
  from empty_snapshot_is_silent [OF sample_imei_valid wf hit] show ?thesis
    by simp
qed

subsection \<open>The cache\<close>





end
